theory Spec2Isabelle
  imports Main "HOL-Library.AList"
begin

section \<open>Values that cross the messaging layer\<close>

text \<open>
  Everything that travels over \<^verbatim>\<open>window.postMessage\<close> or
  \<^verbatim>\<open>browser.runtime.sendMessage\<close> is a structured clone: plain data. An object is
  its list of own properties in insertion order (an array is the object keyed by its
  indices). Numbers are only carried, never computed with.
\<close>

datatype jsval =
    JUndefined
  | JNull
  | JBool bool
  | JNum int
  | JStr string
  | JObj "(string \<times> jsval) list"

datatype js_error =
    TypeError
  | Thrown jsval

text \<open>The \<^verbatim>\<open>typeof\<close> operator; \<^verbatim>\<open>typeof null\<close> is \<^verbatim>\<open>'object'\<close>.\<close>

fun typeof :: "jsval \<Rightarrow> string" where
  "typeof JUndefined = ''undefined''"
| "typeof JNull = ''object''"
| "typeof (JBool b) = ''boolean''"
| "typeof (JNum n) = ''number''"
| "typeof (JStr s) = ''string''"
| "typeof (JObj fs) = ''object''"

text \<open>
  Reading \<^verbatim>\<open>v.k\<close>: a TypeError on \<^verbatim>\<open>null\<close> and \<^verbatim>\<open>undefined\<close>,
  \<^verbatim>\<open>undefined\<close> for a property the object does not have. The keys read in this
  development (\<^verbatim>\<open>type\<close>, \<^verbatim>\<open>payload\<close>, \<^verbatim>\<open>id\<close>, \<^verbatim>\<open>value\<close>) are no
  properties of a boolean, a number or a string.
\<close>

fun get_prop :: "jsval \<Rightarrow> string \<Rightarrow> js_error + jsval" where
  "get_prop JUndefined k = Inl TypeError"
| "get_prop JNull k = Inl TypeError"
| "get_prop (JObj fs) k = Inr (case map_of fs k of None \<Rightarrow> JUndefined | Some v \<Rightarrow> v)"
| "get_prop v k = Inr JUndefined"

text \<open>
  Writing \<^verbatim>\<open>v.k = x\<close> in strict code: an existing property keeps its place, a new one
  is added last; every value that is not an object raises a TypeError.
\<close>

fun set_prop :: "jsval \<Rightarrow> string \<Rightarrow> jsval \<Rightarrow> js_error + jsval" where
  "set_prop (JObj fs) k x = Inr (JObj (AList.update k x fs))"
| "set_prop v k x = Inl TypeError"

text \<open>How an awaited promise ends: with a value, with a rejection, or never.\<close>

datatype 'a settled =
    Resolves 'a
  | Rejects jsval
  | NeverSettles

section \<open>The content-script relay (\<^verbatim>\<open>registerContentProxy\<close>)\<close>

text \<open>
  What one run of the listener does to the outside world: the arguments of each
  \<^verbatim>\<open>console.log\<close>, the arguments of each \<^verbatim>\<open>browser.runtime.sendMessage\<close>, the
  messages given to \<^verbatim>\<open>window.postMessage\<close>, and how the promise of the
  \<^verbatim>\<open>async\<close> listener ends.
\<close>

datatype completion =
    Fulfilled
  | Rejected js_error
  | Pending

record relay_effects =
  console_log :: "jsval list list"
  runtime_sent :: "jsval list"
  window_posted :: "jsval list"
  completion :: completion

text \<open>
  \<^verbatim>\<open>receiveMessage(event)\<close>, with \<^verbatim>\<open>msg = event.data\<close>. The runtime-wide send
  is the environment's: \<open>sendMessage\<close> says how the promise it returns for a given
  argument ends.
\<close>

definition receiveMessage ::
  "bool \<Rightarrow> (jsval \<Rightarrow> jsval settled) \<Rightarrow> jsval \<Rightarrow> relay_effects" where
  "receiveMessage logMessages sendMessage msg =
    (let logged = (if logMessages then [[JStr ''receive message'', msg]] else []) in
     if typeof msg \<noteq> ''object'' then
       \<lparr>console_log = logged, runtime_sent = [], window_posted = [], completion = Fulfilled\<rparr>
     else
      (case get_prop msg ''type'' of
         Inl e \<Rightarrow>
           \<lparr>console_log = logged, runtime_sent = [], window_posted = [],
            completion = Rejected e\<rparr>
       | Inr t \<Rightarrow>
           if t \<noteq> JStr ''request'' then
             \<lparr>console_log = logged, runtime_sent = [], window_posted = [],
              completion = Fulfilled\<rparr>
           else
            (case get_prop msg ''payload'' of
               Inl e \<Rightarrow>
                 \<lparr>console_log = logged, runtime_sent = [], window_posted = [],
                  completion = Rejected e\<rparr>
             | Inr payload \<Rightarrow>
                (case sendMessage payload of
                   NeverSettles \<Rightarrow>
                     \<lparr>console_log = logged, runtime_sent = [payload], window_posted = [],
                      completion = Pending\<rparr>
                 | Rejects err \<Rightarrow>
                     \<lparr>console_log = logged, runtime_sent = [payload], window_posted = [],
                      completion = Rejected (Thrown err)\<rparr>
                 | Resolves v \<Rightarrow>
                    (case set_prop msg ''value'' v of
                       Inl e \<Rightarrow>
                         \<lparr>console_log = logged, runtime_sent = [payload],
                          window_posted = [], completion = Rejected e\<rparr>
                     | Inr msg1 \<Rightarrow>
                        (case set_prop msg1 ''type'' (JStr ''reply'') of
                           Inl e \<Rightarrow>
                             \<lparr>console_log = logged, runtime_sent = [payload],
                              window_posted = [], completion = Rejected e\<rparr>
                         | Inr msg2 \<Rightarrow>
                             \<lparr>console_log = logged, runtime_sent = [payload],
                              window_posted = [msg2], completion = Fulfilled\<rparr>))))))"

text \<open>
  \<^verbatim>\<open>registerContentProxy(logMessages = false)\<close> installs \<^verbatim>\<open>receiveMessage\<close> as the
  window's \<^verbatim>\<open>message\<close> listener; the model returns the listener it installs.
\<close>

definition registerContentProxy ::
  "bool option \<Rightarrow> (jsval \<Rightarrow> jsval settled) \<Rightarrow> jsval \<Rightarrow> relay_effects" where
  "registerContentProxy logMessages =
     receiveMessage (case logMessages of None \<Rightarrow> False | Some b \<Rightarrow> b)"

text \<open>A message the relay forwards: an object (not \<^verbatim>\<open>null\<close>) whose type is \<^verbatim>\<open>'request'\<close>.\<close>

definition is_request :: "jsval \<Rightarrow> bool" where
  "is_request msg \<longleftrightarrow> typeof msg = ''object'' \<and> get_prop msg ''type'' = Inr (JStr ''request'')"

text \<open>A runtime-wide send whose promise resolves with \<open>v\<close>, whatever is sent.\<close>

definition resolves_with :: "jsval \<Rightarrow> jsval \<Rightarrow> jsval settled" where
  "resolves_with v payload = Resolves v"

section \<open>The Rpc class, as its callers use it\<close>

text \<open>
  \<^verbatim>\<open>setupInjectPageAPIServer\<close> and \<^verbatim>\<open>BackgroundManager\<close> use the \<^verbatim>\<open>Rpc\<close>
  class through its constructor, \<^verbatim>\<open>register\<close> and \<^verbatim>\<open>call\<close> only. An endpoint is
  the options it was constructed with and the log, in order, of the \<^verbatim>\<open>register\<close> and
  \<^verbatim>\<open>call\<close> invocations made on it; nothing is assumed of what the class does with them.
\<close>

datatype browser_fn =
    runtime_onMessage_addListener
  | runtime_sendMessage

record rpc_options =
  opt_addListener :: browser_fn
  opt_destination :: string
  opt_logMessages :: bool
  opt_postMessage :: "browser_fn option"
  opt_source :: string

text \<open>A handler is a method bound to its object: \<^verbatim>\<open>obj.method.bind(obj)\<close>.\<close>

datatype receiver =
    signMessageManager
  | connectionManager
  | authController
  | this_BackgroundManager

datatype handler = Bind receiver string

record rpc =
  options :: rpc_options
  registered :: "(string \<times> handler) list"
  called :: "(string \<times> jsval list) list"

definition Rpc_new :: "rpc_options \<Rightarrow> rpc" where
  "Rpc_new opts = \<lparr>options = opts, registered = [], called = []\<rparr>"

definition register :: "rpc \<Rightarrow> string \<Rightarrow> handler \<Rightarrow> rpc" where
  "register r name h = r\<lparr>registered := registered r @ [(name, h)]\<rparr>"

text \<open>
  A promise is known by how it was made: returned by \<^verbatim>\<open>rpc.call(method, ...args)\<close>,
  or by \<^verbatim>\<open>errors.withCapture(p)\<close> of the error container.
\<close>

datatype promise =
    CallResult string "jsval list"
  | withCapture promise

definition rpc_call :: "rpc \<Rightarrow> string \<Rightarrow> jsval list \<Rightarrow> promise \<times> rpc" where
  "rpc_call r method args = (CallResult method args, r\<lparr>called := called r @ [(method, args)]\<rparr>)"

definition errors_withCapture :: "promise \<times> rpc \<Rightarrow> promise \<times> rpc" where
  "errors_withCapture pr = (withCapture (fst pr), snd pr)"

fun is_withCapture :: "promise \<Rightarrow> bool" where
  "is_withCapture (withCapture p) = True"
| "is_withCapture (CallResult method args) = False"

section \<open>The inject-page server (\<^verbatim>\<open>setupInjectPageAPIServer\<close>)\<close>

text \<open>
  The three collaborators are the function's parameters, named by \<^typ>\<open>receiver\<close>; the
  result is the endpoint held by the module's variable \<^verbatim>\<open>rpc\<close> when the function
  returns.
\<close>

definition setupInjectPageAPIServer :: "bool option \<Rightarrow> rpc" where
  "setupInjectPageAPIServer logMessages =
    (let rpc0 = Rpc_new \<lparr>opt_addListener = runtime_onMessage_addListener,
                         opt_destination = ''page'',
                         opt_logMessages = (case logMessages of None \<Rightarrow> False | Some b \<Rightarrow> b),
                         opt_postMessage = None,
                         opt_source = ''background''\<rparr>;
         rpc1 = register rpc0 ''sign'' (Bind signMessageManager ''addUnsignedMessageBase16Async'');
         rpc2 = register rpc1 ''getSelectedPublicKeyBase64''
                  (Bind signMessageManager ''getSelectedPublicKeyBase64'');
         rpc3 = register rpc2 ''isConnected'' (Bind connectionManager ''isConnected'');
         rpc4 = register rpc3 ''requestConnection'' (Bind connectionManager ''requestConnection'');
         rpc5 = register rpc4 ''connectToSite'' (Bind connectionManager ''connectToSite'');
         rpc6 = register rpc5 ''createNewVault'' (Bind authController ''createNewVault'');
         rpc7 = register rpc6 ''hasCreatedVault'' (Bind connectionManager ''hasCreatedVault'')
     in rpc7)"

fun receiver_of :: "handler \<Rightarrow> receiver" where
  "receiver_of (Bind obj method) = obj"

section \<open>The popup's \<^verbatim>\<open>BackgroundManager\<close>\<close>

text \<open>
  The fields of \<^verbatim>\<open>AppState\<close> that \<^verbatim>\<open>onStateUpdate\<close> touches. The two observable
  arrays are their contents.
\<close>

record AppState =
  isIntegratedSite :: jsval
  isUnlocked :: jsval
  unlockAttempts :: jsval
  lockoutTimerStarted :: jsval
  remainingMins :: jsval
  currentTab :: jsval
  connectionRequested :: jsval
  connectedSites :: jsval
  hasCreatedVault :: jsval
  selectedUserAccount :: jsval
  userAccounts :: "jsval list"
  unsignedDeploys :: "jsval list"

text \<open>\<^verbatim>\<open>IObservableArray.replace(newItems)\<close>: the array's contents become the new items.\<close>

definition replace :: "'a list \<Rightarrow> 'a list \<Rightarrow> 'a list" where
  "replace items newItems = newItems"

text \<open>\<^verbatim>\<open>onStateUpdate(appState)\<close>; the first argument is \<^verbatim>\<open>this.appState\<close> before the call.\<close>

definition onStateUpdate :: "AppState \<Rightarrow> AppState \<Rightarrow> AppState" where
  "onStateUpdate this_appState appState =
     this_appState
       \<lparr>isIntegratedSite := isIntegratedSite appState,
        isUnlocked := isUnlocked appState,
        unlockAttempts := unlockAttempts appState,
        lockoutTimerStarted := lockoutTimerStarted appState,
        remainingMins := remainingMins appState,
        currentTab := currentTab appState,
        connectionRequested := connectionRequested appState,
        connectedSites := connectedSites appState,
        hasCreatedVault := hasCreatedVault appState,
        selectedUserAccount := selectedUserAccount appState,
        userAccounts := replace (userAccounts this_appState) (userAccounts appState),
        unsignedDeploys := replace (unsignedDeploys this_appState) (unsignedDeploys appState)\<rparr>"

text \<open>The methods of the class that a handler bound to \<^verbatim>\<open>this\<close> can name.\<close>

definition this_method :: "string \<Rightarrow> (AppState \<Rightarrow> AppState \<Rightarrow> AppState) option" where
  "this_method name = (if name = ''onStateUpdate'' then Some onStateUpdate else None)"

record background_manager =
  bm_rpc :: rpc
  bm_appState :: AppState

text \<open>
  The constructor. \<open>getState\<close> says how the promise of
  \<^verbatim>\<open>rpc.call('background.getState')\<close> ends; its \<^verbatim>\<open>then\<close> callback runs only when
  it resolves.
\<close>

definition BackgroundManager :: "AppState \<Rightarrow> AppState settled \<Rightarrow> background_manager" where
  "BackgroundManager appState getState =
    (let rpc0 = Rpc_new \<lparr>opt_addListener = runtime_onMessage_addListener,
                         opt_destination = ''background'',
                         opt_logMessages = False,
                         opt_postMessage = Some runtime_sendMessage,
                         opt_source = ''popup''\<rparr>;
         rpc1 = register rpc0 ''popup.updateState'' (Bind this_BackgroundManager ''onStateUpdate'');
         (p, rpc2) = rpc_call rpc1 ''background.getState'' []
     in \<lparr>bm_rpc = rpc2,
         bm_appState = (case getState of
                          Resolves snapshot \<Rightarrow> onStateUpdate appState snapshot
                        | Rejects err \<Rightarrow> appState
                        | NeverSettles \<Rightarrow> appState)\<rparr>)"

text \<open>
  The public methods that issue a call, each with its arguments. An optional parameter
  left out is \<^verbatim>\<open>undefined\<close>.
\<close>

datatype bm_method =
    Unlock string
  | CreateNewVault string
  | Lock
  | ImportUserAccount string string string
  | ReorderAccount int int
  | RemoveUserAccount string
  | SignDeploy int
  | RejectSignDeploy int
  | ParseDeployData int
  | SwitchToAccount string
  | GetSelectUserAccount
  | GetActivePublicKeyHex
  | GetActiveAccountHash
  | ResetVault
  | ResetLockout
  | StartLockoutTimer int
  | ResetLockoutTimer
  | RenameUserAccount string string
  | DownloadAccountKeys string
  | ConnectToSite "string option"
  | DisconnectFromSite "string option"
  | RemoveSite string
  | ResetConnectionRequest
  | ConfirmPassword string
  | IsIntegratedSite string

fun optional :: "string option \<Rightarrow> jsval" where
  "optional None = JUndefined"
| "optional (Some s) = JStr s"

text \<open>The body of each method, run on \<^verbatim>\<open>this.rpc\<close>: what it returns, and the endpoint after.\<close>

fun invoke :: "bm_method \<Rightarrow> rpc \<Rightarrow> promise \<times> rpc" where
  "invoke (Unlock password) r =
     errors_withCapture (rpc_call r ''account.unlock'' [JStr password])"
| "invoke (CreateNewVault password) r =
     rpc_call r ''account.createNewVault'' [JStr password]"
| "invoke Lock r =
     rpc_call r ''account.lock'' []"
| "invoke (ImportUserAccount name secretKeyBase64 algorithm) r =
     errors_withCapture (rpc_call r ''account.importUserAccount''
       [JStr name, JStr secretKeyBase64, JStr algorithm])"
| "invoke (ReorderAccount index1 index2) r =
     errors_withCapture (rpc_call r ''account.reorderAccount'' [JNum index1, JNum index2])"
| "invoke (RemoveUserAccount name) r =
     errors_withCapture (rpc_call r ''account.removeUserAccount'' [JStr name])"
| "invoke (SignDeploy deployId) r =
     errors_withCapture (rpc_call r ''sign.signDeploy'' [JNum deployId])"
| "invoke (RejectSignDeploy deployId) r =
     errors_withCapture (rpc_call r ''sign.rejectSignDeploy'' [JNum deployId])"
| "invoke (ParseDeployData deployId) r =
     errors_withCapture (rpc_call r ''sign.parseDeployData'' [JNum deployId])"
| "invoke (SwitchToAccount accountName) r =
     errors_withCapture (rpc_call r ''account.switchToAccount'' [JStr accountName])"
| "invoke GetSelectUserAccount r =
     errors_withCapture (rpc_call r ''account.getSelectUserAccount'' [])"
| "invoke GetActivePublicKeyHex r =
     errors_withCapture (rpc_call r ''account.getActivePublicKeyHex'' [])"
| "invoke GetActiveAccountHash r =
     errors_withCapture (rpc_call r ''account.getActiveAccountHash'' [])"
| "invoke ResetVault r =
     errors_withCapture (rpc_call r ''account.resetVault'' [])"
| "invoke ResetLockout r =
     errors_withCapture (rpc_call r ''account.resetLockout'' [])"
| "invoke (StartLockoutTimer timeInMinutes) r =
     errors_withCapture (rpc_call r ''account.startLockoutTimer'' [JNum timeInMinutes])"
| "invoke ResetLockoutTimer r =
     errors_withCapture (rpc_call r ''account.resetLockoutTimer'' [])"
| "invoke (RenameUserAccount oldName newName) r =
     errors_withCapture (rpc_call r ''account.renameUserAccount'' [JStr oldName, JStr newName])"
| "invoke (DownloadAccountKeys accountAlias) r =
     errors_withCapture (rpc_call r ''account.downloadAccountKeys'' [JStr accountAlias])"
| "invoke (ConnectToSite url) r =
     errors_withCapture (rpc_call r ''connection.connectToSite'' [optional url])"
| "invoke (DisconnectFromSite site) r =
     errors_withCapture (rpc_call r ''connection.disconnectFromSite'' [optional site])"
| "invoke (RemoveSite url) r =
     errors_withCapture (rpc_call r ''connection.removeSite'' [JStr url])"
| "invoke ResetConnectionRequest r =
     errors_withCapture (rpc_call r ''connection.resetConnectionRequest'' [])"
| "invoke (ConfirmPassword password) r =
     errors_withCapture (rpc_call r ''account.confirmPassword'' [JStr password])"
| "invoke (IsIntegratedSite hostname) r =
     errors_withCapture (rpc_call r ''connection.isIntegratedSite'' [JStr hostname])"

text \<open>Each method's own name and its own arguments in order, as its declaration gives them.\<close>

fun method_name :: "bm_method \<Rightarrow> string" where
  "method_name (Unlock password) = ''unlock''"
| "method_name (CreateNewVault password) = ''createNewVault''"
| "method_name Lock = ''lock''"
| "method_name (ImportUserAccount name secretKeyBase64 algorithm) = ''importUserAccount''"
| "method_name (ReorderAccount index1 index2) = ''reorderAccount''"
| "method_name (RemoveUserAccount name) = ''removeUserAccount''"
| "method_name (SignDeploy deployId) = ''signDeploy''"
| "method_name (RejectSignDeploy deployId) = ''rejectSignDeploy''"
| "method_name (ParseDeployData deployId) = ''parseDeployData''"
| "method_name (SwitchToAccount accountName) = ''switchToAccount''"
| "method_name GetSelectUserAccount = ''getSelectUserAccount''"
| "method_name GetActivePublicKeyHex = ''getActivePublicKeyHex''"
| "method_name GetActiveAccountHash = ''getActiveAccountHash''"
| "method_name ResetVault = ''resetVault''"
| "method_name ResetLockout = ''resetLockout''"
| "method_name (StartLockoutTimer timeInMinutes) = ''startLockoutTimer''"
| "method_name ResetLockoutTimer = ''resetLockoutTimer''"
| "method_name (RenameUserAccount oldName newName) = ''renameUserAccount''"
| "method_name (DownloadAccountKeys accountAlias) = ''downloadAccountKeys''"
| "method_name (ConnectToSite url) = ''connectToSite''"
| "method_name (DisconnectFromSite site) = ''disconnectFromSite''"
| "method_name (RemoveSite url) = ''removeSite''"
| "method_name ResetConnectionRequest = ''resetConnectionRequest''"
| "method_name (ConfirmPassword password) = ''confirmPassword''"
| "method_name (IsIntegratedSite hostname) = ''isIntegratedSite''"

fun method_args :: "bm_method \<Rightarrow> jsval list" where
  "method_args (Unlock password) = [JStr password]"
| "method_args (CreateNewVault password) = [JStr password]"
| "method_args Lock = []"
| "method_args (ImportUserAccount name secretKeyBase64 algorithm) =
     [JStr name, JStr secretKeyBase64, JStr algorithm]"
| "method_args (ReorderAccount index1 index2) = [JNum index1, JNum index2]"
| "method_args (RemoveUserAccount name) = [JStr name]"
| "method_args (SignDeploy deployId) = [JNum deployId]"
| "method_args (RejectSignDeploy deployId) = [JNum deployId]"
| "method_args (ParseDeployData deployId) = [JNum deployId]"
| "method_args (SwitchToAccount accountName) = [JStr accountName]"
| "method_args GetSelectUserAccount = []"
| "method_args GetActivePublicKeyHex = []"
| "method_args GetActiveAccountHash = []"
| "method_args ResetVault = []"
| "method_args ResetLockout = []"
| "method_args (StartLockoutTimer timeInMinutes) = [JNum timeInMinutes]"
| "method_args ResetLockoutTimer = []"
| "method_args (RenameUserAccount oldName newName) = [JStr oldName, JStr newName]"
| "method_args (DownloadAccountKeys accountAlias) = [JStr accountAlias]"
| "method_args (ConnectToSite url) = [optional url]"
| "method_args (DisconnectFromSite site) = [optional site]"
| "method_args (RemoveSite url) = [JStr url]"
| "method_args ResetConnectionRequest = []"
| "method_args (ConfirmPassword password) = [JStr password]"
| "method_args (IsIntegratedSite hostname) = [JStr hostname]"

text \<open>
  The registered method surface as the specification lists it: each namespace with the
  names under it.
\<close>

definition spec_method_surface :: "(string \<times> string list) list" where
  "spec_method_surface =
    [(''account'',
       [''unlock'', ''lock'', ''createNewVault'', ''importUserAccount'', ''reorderAccount'',
        ''removeUserAccount'', ''switchToAccount'', ''getSelectUserAccount'',
        ''getActivePublicKeyHex'', ''getActiveAccountHash'', ''resetVault'', ''resetLockout'',
        ''startLockoutTimer'', ''resetLockoutTimer'', ''renameUserAccount'',
        ''downloadAccountKeys'', ''confirmPassword'']),
     (''sign'', [''signDeploy'', ''rejectSignDeploy'', ''parseDeployData'']),
     (''connection'',
       [''connectToSite'', ''disconnectFromSite'', ''removeSite'', ''resetConnectionRequest'',
        ''isIntegratedSite''])]"

text \<open>The namespace the specification lists a method name under, if any.\<close>

definition spec_namespace :: "string \<Rightarrow> string option" where
  "spec_namespace name =
     map_option fst (find (\<lambda>entry. name \<in> set (snd entry)) spec_method_surface)"

section \<open>The relay: proofs\<close>

lemma is_request_obj:
  "is_request msg \<Longrightarrow> \<exists>fs. msg = JObj fs \<and> map_of fs ''type'' = Some (JStr ''request'')"
  by (cases msg) (auto simp: is_request_def split: option.splits)

lemma receiveMessage_request:
  assumes "map_of fs ''type'' = Some (JStr ''request'')"
  shows "receiveMessage lg send (JObj fs) =
    (let logged = (if lg then [[JStr ''receive message'', JObj fs]] else []);
         payload = (case map_of fs ''payload'' of None \<Rightarrow> JUndefined | Some v \<Rightarrow> v)
     in case send payload of
          NeverSettles \<Rightarrow>
            \<lparr>console_log = logged, runtime_sent = [payload], window_posted = [],
             completion = Pending\<rparr>
        | Rejects err \<Rightarrow>
            \<lparr>console_log = logged, runtime_sent = [payload], window_posted = [],
             completion = Rejected (Thrown err)\<rparr>
        | Resolves v \<Rightarrow>
            \<lparr>console_log = logged, runtime_sent = [payload],
             window_posted =
               [JObj (AList.update ''type'' (JStr ''reply'') (AList.update ''value'' v fs))],
             completion = Fulfilled\<rparr>)"
  using assms by (simp add: receiveMessage_def Let_def split: settled.splits)

lemma receiveMessage_not_request:
  assumes "typeof msg = ''object''" and "get_prop msg ''type'' = Inr t" and "t \<noteq> JStr ''request''"
  shows "receiveMessage lg send msg =
    \<lparr>console_log = (if lg then [[JStr ''receive message'', msg]] else []),
     runtime_sent = [], window_posted = [], completion = Fulfilled\<rparr>"
  using assms by (simp add: receiveMessage_def Let_def)

lemma receiveMessage_not_object:
  assumes "typeof msg \<noteq> ''object''"
  shows "receiveMessage lg send msg =
    \<lparr>console_log = (if lg then [[JStr ''receive message'', msg]] else []),
     runtime_sent = [], window_posted = [], completion = Fulfilled\<rparr>"
  using assms by (simp add: receiveMessage_def Let_def)

text \<open>
  Every input that is not a request, \<^verbatim>\<open>null\<close> apart, is ignored: nothing is sent,
  nothing is posted, and the listener's promise is fulfilled.
\<close>

lemma receiveMessage_ignores:
  assumes "\<not> is_request msg" and "msg \<noteq> JNull"
  shows "receiveMessage lg send msg =
    \<lparr>console_log = (if lg then [[JStr ''receive message'', msg]] else []),
     runtime_sent = [], window_posted = [], completion = Fulfilled\<rparr>"
proof (cases msg)
  case (JObj fs)
  then have obj: "typeof msg = ''object''" by simp
  obtain t where t: "get_prop msg ''type'' = Inr t" using JObj by simp
  with assms(1) obj have "t \<noteq> JStr ''request''" by (auto simp: is_request_def)
  with obj t show ?thesis by (rule receiveMessage_not_request)
qed (use assms in \<open>simp_all add: receiveMessage_not_object\<close>)

lemma posted_is_reply:
  assumes "r \<in> set (window_posted (receiveMessage lg send ev))"
  shows "\<exists>fs. r = JObj fs \<and> map_of fs ''type'' = Some (JStr ''reply'')"
proof (cases "is_request ev")
  case True
  then obtain fs where ev: "ev = JObj fs" and ty: "map_of fs ''type'' = Some (JStr ''request'')"
    using is_request_obj by blast
  from assms show ?thesis
    unfolding ev receiveMessage_request [OF ty]
    by (auto simp: Let_def update_conv' split: settled.splits)
next
  case False
  show ?thesis
  proof (cases "ev = JNull")
    case True
    with assms show ?thesis by (simp add: receiveMessage_def Let_def)
  next
    case False
    with \<open>\<not> is_request ev\<close> assms show ?thesis by (simp add: receiveMessage_ignores)
  qed
qed

lemma reply_is_ignored:
  assumes "get_prop ev ''type'' = Inr (JStr ''reply'')"
  shows "runtime_sent (receiveMessage lg send ev) = []
       \<and> window_posted (receiveMessage lg send ev) = []"
proof -
  from assms have "\<not> is_request ev" and "ev \<noteq> JNull" by (auto simp: is_request_def)
  then show ?thesis by (simp add: receiveMessage_ignores)
qed

lemma at_most_one_send: "length (runtime_sent (receiveMessage lg send ev)) \<le> 1"
  by (simp add: receiveMessage_def Let_def split: sum.splits settled.splits)

text \<open>
  When the runtime-wide send rejects or never settles there is no value to assign: the
  relay posts nothing, and the listener's promise rejects with the send's error or stays
  pending.
\<close>

lemma relay_request_send_unanswered:
  assumes "is_request msg" and "get_prop msg ''payload'' = Inr payload"
  shows "send payload = Rejects err \<Longrightarrow>
           window_posted (receiveMessage lg send msg) = []
           \<and> completion (receiveMessage lg send msg) = Rejected (Thrown err)"
    and "send payload = NeverSettles \<Longrightarrow>
           window_posted (receiveMessage lg send msg) = []
           \<and> completion (receiveMessage lg send msg) = Pending"
proof -
  from assms(1) obtain fs where msg: "msg = JObj fs"
    and ty: "map_of fs ''type'' = Some (JStr ''request'')"
    using is_request_obj by blast
  from assms(2) have pay: "(case map_of fs ''payload'' of None \<Rightarrow> JUndefined | Some x \<Rightarrow> x) = payload"
    by (simp add: msg)
  show "send payload = Rejects err \<Longrightarrow>
           window_posted (receiveMessage lg send msg) = []
           \<and> completion (receiveMessage lg send msg) = Rejected (Thrown err)"
    unfolding msg receiveMessage_request [OF ty] by (simp add: Let_def pay)
  show "send payload = NeverSettles \<Longrightarrow>
           window_posted (receiveMessage lg send msg) = []
           \<and> completion (receiveMessage lg send msg) = Pending"
    unfolding msg receiveMessage_request [OF ty] by (simp add: Let_def pay)
qed

text \<open>
  C1. A request is an object whose type is \<^verbatim>\<open>'request'\<close>. When the runtime-wide send
  of its payload resolves with \<open>v\<close>, the relay has sent exactly one message on the
  runtime-wide channel, and posts exactly one message on the page-local channel: the
  observed message with \<open>v\<close> assigned to \<^verbatim>\<open>value\<close> and then \<^verbatim>\<open>'reply'\<close> to
  \<^verbatim>\<open>type\<close>. Its \<^verbatim>\<open>id\<close>, like every field other than those two, is the request's.
\<close>

theorem relay_request_reply:
  assumes "is_request msg"
    and "get_prop msg ''payload'' = Inr payload"
    and "send payload = Resolves v"
  shows "\<exists>msg1 reply.
      length (runtime_sent (receiveMessage lg send msg)) = 1
    \<and> set_prop msg ''value'' v = Inr msg1
    \<and> set_prop msg1 ''type'' (JStr ''reply'') = Inr reply
    \<and> window_posted (receiveMessage lg send msg) = [reply]
    \<and> get_prop reply ''value'' = Inr v
    \<and> get_prop reply ''type'' = Inr (JStr ''reply'')
    \<and> get_prop reply ''id'' = get_prop msg ''id''
    \<and> (\<forall>k. k \<noteq> ''value'' \<and> k \<noteq> ''type'' \<longrightarrow> get_prop reply k = get_prop msg k)
    \<and> completion (receiveMessage lg send msg) = Fulfilled"
proof -
  from assms(1) obtain fs where msg: "msg = JObj fs"
    and ty: "map_of fs ''type'' = Some (JStr ''request'')"
    using is_request_obj by blast
  from assms(2) have pay: "(case map_of fs ''payload'' of None \<Rightarrow> JUndefined | Some x \<Rightarrow> x) = payload"
    by (simp add: msg)
  have run: "receiveMessage lg send msg =
      \<lparr>console_log = (if lg then [[JStr ''receive message'', JObj fs]] else []),
       runtime_sent = [payload],
       window_posted =
         [JObj (AList.update ''type'' (JStr ''reply'') (AList.update ''value'' v fs))],
       completion = Fulfilled\<rparr>"
    unfolding msg receiveMessage_request [OF ty] by (simp add: Let_def pay assms(3))
  show ?thesis
    unfolding run by (simp add: msg update_conv')
qed

theorem relay_request_reply_witness:
  "is_request (JObj [(''type'', JStr ''request''), (''id'', JNum 41),
                     (''payload'', JObj [(''method'', JStr ''sign'')])])
   \<and> resolves_with (JStr ''signed'') (JObj [(''method'', JStr ''sign'')]) = Resolves (JStr ''signed'')
   \<and> runtime_sent (receiveMessage False (resolves_with (JStr ''signed''))
        (JObj [(''type'', JStr ''request''), (''id'', JNum 41),
               (''payload'', JObj [(''method'', JStr ''sign'')])]))
     = [JObj [(''method'', JStr ''sign'')]]
   \<and> window_posted (receiveMessage False (resolves_with (JStr ''signed''))
        (JObj [(''type'', JStr ''request''), (''id'', JNum 41),
               (''payload'', JObj [(''method'', JStr ''sign'')])]))
     = [JObj [(''type'', JStr ''reply''), (''id'', JNum 41),
              (''payload'', JObj [(''method'', JStr ''sign'')]), (''value'', JStr ''signed'')]]"
proof -
  let ?req = "JObj [(''type'', JStr ''request''), (''id'', JNum 41),
                    (''payload'', JObj [(''method'', JStr ''sign'')])]"
  let ?pay = "JObj [(''method'', JStr ''sign'')]"
  have h1: "is_request ?req" by (simp add: is_request_def)
  have h2: "get_prop ?req ''payload'' = Inr ?pay" by simp
  have h3: "resolves_with (JStr ''signed'') ?pay = Resolves (JStr ''signed'')"
    by (simp add: resolves_with_def)
  have sent: "runtime_sent (receiveMessage False (resolves_with (JStr ''signed'')) ?req) = [?pay]"
    by (simp add: receiveMessage_def resolves_with_def)
  from relay_request_reply [where msg = ?req and payload = ?pay
      and send = "resolves_with (JStr ''signed'')" and v = "JStr ''signed''" and lg = False,
      OF h1 h2 h3]
  have "window_posted (receiveMessage False (resolves_with (JStr ''signed'')) ?req)
      = [JObj [(''type'', JStr ''reply''), (''id'', JNum 41),
               (''payload'', ?pay), (''value'', JStr ''signed'')]]"
    by auto
  with h1 h3 sent show ?thesis by simp
qed

text \<open>
  C2, as the claim states it, fails: for a request whose payload is not the request
  itself, what goes out on the runtime-wide channel is not the observed message.
\<close>

theorem relay_emits_message_itself_counterexample:
  "is_request (JObj [(''type'', JStr ''request''), (''id'', JNum 41),
                     (''payload'', JObj [(''method'', JStr ''sign'')])])
   \<and> runtime_sent (receiveMessage False (resolves_with (JStr ''signed''))
        (JObj [(''type'', JStr ''request''), (''id'', JNum 41),
               (''payload'', JObj [(''method'', JStr ''sign'')])]))
     \<noteq> [JObj [(''type'', JStr ''request''), (''id'', JNum 41),
               (''payload'', JObj [(''method'', JStr ''sign'')])]]"
  by (simp add: is_request_def receiveMessage_def resolves_with_def)

text \<open>
  C2, amended. For every request the relay observes, the one object it emits on the
  runtime-wide channel is the request's \<^verbatim>\<open>payload\<close> field, unmodified, whatever the
  send then does.
\<close>

theorem relay_emits_payload:
  assumes "is_request msg" and "get_prop msg ''payload'' = Inr payload"
  shows "runtime_sent (receiveMessage lg send msg) = [payload]"
proof -
  from assms(1) obtain fs where msg: "msg = JObj fs"
    and ty: "map_of fs ''type'' = Some (JStr ''request'')"
    using is_request_obj by blast
  from assms(2) have "(case map_of fs ''payload'' of None \<Rightarrow> JUndefined | Some x \<Rightarrow> x) = payload"
    by (simp add: msg)
  then show ?thesis
    unfolding msg receiveMessage_request [OF ty] by (simp add: Let_def split: settled.splits)
qed

theorem relay_emits_payload_witness:
  "is_request (JObj [(''type'', JStr ''request''), (''id'', JNum 41),
                     (''payload'', JObj [(''method'', JStr ''sign'')])])
   \<and> get_prop (JObj [(''type'', JStr ''request''), (''id'', JNum 41),
                      (''payload'', JObj [(''method'', JStr ''sign'')])]) ''payload''
     = Inr (JObj [(''method'', JStr ''sign'')])
   \<and> runtime_sent (receiveMessage True (resolves_with JNull)
        (JObj [(''type'', JStr ''request''), (''id'', JNum 41),
               (''payload'', JObj [(''method'', JStr ''sign'')])]))
     = [JObj [(''method'', JStr ''sign'')]]"
proof -
  let ?req = "JObj [(''type'', JStr ''request''), (''id'', JNum 41),
                    (''payload'', JObj [(''method'', JStr ''sign'')])]"
  have h1: "is_request ?req" by (simp add: is_request_def)
  have h2: "get_prop ?req ''payload'' = Inr (JObj [(''method'', JStr ''sign'')])" by simp
  from h1 h2 relay_emits_payload [where msg = ?req and lg = True
      and send = "resolves_with JNull", OF h1 h2]
  show ?thesis by simp
qed

text \<open>
  C3 at \<^verbatim>\<open>null\<close>. \<^verbatim>\<open>null\<close> is no request, and \<^verbatim>\<open>typeof null\<close> is
  \<^verbatim>\<open>'object'\<close>, so the first check lets it through; reading \<^verbatim>\<open>msg.type\<close> then raises
  a TypeError inside the listener. Nothing is sent or posted.
\<close>

theorem relay_null_message_raises:
  "\<not> is_request JNull
   \<and> receiveMessage lg send JNull =
       \<lparr>console_log = (if lg then [[JStr ''receive message'', JNull]] else []),
        runtime_sent = [], window_posted = [], completion = Rejected TypeError\<rparr>"
  by (simp add: is_request_def receiveMessage_def Let_def)

text \<open>
  C9. One message event causes at most one runtime-wide send. An event whose type is
  \<^verbatim>\<open>'reply'\<close> causes no send and no post. Every message the relay posts has type
  \<^verbatim>\<open>'reply'\<close>, so when the relay's own listener receives it (with any flag and any
  behaviour of the runtime-wide send) it causes no send and no further post.
\<close>

theorem relay_never_reforwards_reply:
  "length (runtime_sent (receiveMessage lg send ev)) \<le> 1
   \<and> (get_prop ev ''type'' = Inr (JStr ''reply'') \<longrightarrow>
        runtime_sent (receiveMessage lg send ev) = []
        \<and> window_posted (receiveMessage lg send ev) = [])
   \<and> (\<forall>r \<in> set (window_posted (receiveMessage lg send ev)).
        get_prop r ''type'' = Inr (JStr ''reply'')
        \<and> runtime_sent (receiveMessage lg' send' r) = []
        \<and> window_posted (receiveMessage lg' send' r) = [])"
proof (intro conjI impI ballI)
  show "length (runtime_sent (receiveMessage lg send ev)) \<le> 1"
    by (rule at_most_one_send)
next
  assume "get_prop ev ''type'' = Inr (JStr ''reply'')"
  then show "runtime_sent (receiveMessage lg send ev) = []"
    and "window_posted (receiveMessage lg send ev) = []"
    by (simp_all add: reply_is_ignored)
next
  fix r assume "r \<in> set (window_posted (receiveMessage lg send ev))"
  then obtain fs where "r = JObj fs" and "map_of fs ''type'' = Some (JStr ''reply'')"
    using posted_is_reply by blast
  then have ty: "get_prop r ''type'' = Inr (JStr ''reply'')" by simp
  then show "get_prop r ''type'' = Inr (JStr ''reply'')" .
  from ty show "runtime_sent (receiveMessage lg' send' r) = []"
    and "window_posted (receiveMessage lg' send' r) = []"
    by (simp_all add: reply_is_ignored)
qed

theorem relay_never_reforwards_reply_witness:
  "window_posted (receiveMessage False (resolves_with (JStr ''signed''))
      (JObj [(''type'', JStr ''request''), (''id'', JNum 41),
             (''payload'', JObj [(''method'', JStr ''sign'')])]))
     = [JObj [(''type'', JStr ''reply''), (''id'', JNum 41),
              (''payload'', JObj [(''method'', JStr ''sign'')]), (''value'', JStr ''signed'')]]
   \<and> get_prop (JObj [(''type'', JStr ''reply''), (''id'', JNum 41),
              (''payload'', JObj [(''method'', JStr ''sign'')]), (''value'', JStr ''signed'')])
        ''type'' = Inr (JStr ''reply'')
   \<and> runtime_sent (receiveMessage False (resolves_with (JStr ''signed''))
       (JObj [(''type'', JStr ''reply''), (''id'', JNum 41),
              (''payload'', JObj [(''method'', JStr ''sign'')]), (''value'', JStr ''signed'')]))
     = []
   \<and> window_posted (receiveMessage False (resolves_with (JStr ''signed''))
       (JObj [(''type'', JStr ''reply''), (''id'', JNum 41),
              (''payload'', JObj [(''method'', JStr ''sign'')]), (''value'', JStr ''signed'')]))
     = []"
proof -
  let ?req = "JObj [(''type'', JStr ''request''), (''id'', JNum 41),
                    (''payload'', JObj [(''method'', JStr ''sign'')])]"
  let ?rep = "JObj [(''type'', JStr ''reply''), (''id'', JNum 41),
                    (''payload'', JObj [(''method'', JStr ''sign'')]), (''value'', JStr ''signed'')]"
  let ?send = "resolves_with (JStr ''signed'')"
  have posted: "window_posted (receiveMessage False ?send ?req) = [?rep]"
    by (simp add: receiveMessage_def resolves_with_def)
  have "\<forall>r \<in> set (window_posted (receiveMessage False ?send ?req)).
          get_prop r ''type'' = Inr (JStr ''reply'')
          \<and> runtime_sent (receiveMessage False ?send r) = []
          \<and> window_posted (receiveMessage False ?send r) = []"
    using relay_never_reforwards_reply [of False ?send ?req False ?send] by blast
  with posted show ?thesis by simp
qed

text \<open>
  C8. Whatever the message and whatever the runtime-wide send does, the relay sends and
  posts the same messages, and ends the same way, with \<^verbatim>\<open>logMessages\<close> true, false
  or left out; the flag decides only what is written to the console.
\<close>

theorem relay_logMessages_only_diagnostic:
  "runtime_sent (registerContentProxy (Some True) send msg)
     = runtime_sent (registerContentProxy (Some False) send msg)
   \<and> window_posted (registerContentProxy (Some True) send msg)
     = window_posted (registerContentProxy (Some False) send msg)
   \<and> completion (registerContentProxy (Some True) send msg)
     = completion (registerContentProxy (Some False) send msg)
   \<and> registerContentProxy None send msg = registerContentProxy (Some False) send msg
   \<and> console_log (registerContentProxy (Some False) send msg) = []
   \<and> console_log (registerContentProxy (Some True) send msg) = [[JStr ''receive message'', msg]]"
  by (simp add: registerContentProxy_def receiveMessage_def Let_def
      split: sum.splits settled.splits)

section \<open>The endpoint constructors and the popup's methods: proofs\<close>

text \<open>
  C4. The endpoint \<^verbatim>\<open>setupInjectPageAPIServer\<close> builds has source
  \<^verbatim>\<open>'background'\<close> and destination \<^verbatim>\<open>'page'\<close>. Exactly seven names are registered
  on it, each once: \<^verbatim>\<open>sign\<close> and \<^verbatim>\<open>getSelectedPublicKeyBase64\<close> bound to methods
  of the sign manager, \<^verbatim>\<open>isConnected\<close>, \<^verbatim>\<open>requestConnection\<close>,
  \<^verbatim>\<open>connectToSite\<close> and \<^verbatim>\<open>hasCreatedVault\<close> to methods of the connection manager,
  \<^verbatim>\<open>createNewVault\<close> to a method of the auth controller. No call is issued on it.
\<close>

theorem setupInjectPageAPIServer_wiring:
  "opt_source (options (setupInjectPageAPIServer logMessages)) = ''background''
   \<and> opt_destination (options (setupInjectPageAPIServer logMessages)) = ''page''
   \<and> map fst (registered (setupInjectPageAPIServer logMessages)) =
       [''sign'', ''getSelectedPublicKeyBase64'', ''isConnected'', ''requestConnection'',
        ''connectToSite'', ''createNewVault'', ''hasCreatedVault'']
   \<and> distinct (map fst (registered (setupInjectPageAPIServer logMessages)))
   \<and> map snd (registered (setupInjectPageAPIServer logMessages)) =
       [Bind signMessageManager ''addUnsignedMessageBase16Async'',
        Bind signMessageManager ''getSelectedPublicKeyBase64'',
        Bind connectionManager ''isConnected'',
        Bind connectionManager ''requestConnection'',
        Bind connectionManager ''connectToSite'',
        Bind authController ''createNewVault'',
        Bind connectionManager ''hasCreatedVault'']
   \<and> set (map (receiver_of \<circ> snd) (registered (setupInjectPageAPIServer logMessages)))
       = {signMessageManager, connectionManager, authController}
   \<and> called (setupInjectPageAPIServer logMessages) = []"
  by (simp add: setupInjectPageAPIServer_def Rpc_new_def register_def Let_def insert_commute)

text \<open>
  C5. The endpoint a new \<^verbatim>\<open>BackgroundManager\<close> builds has source \<^verbatim>\<open>'popup'\<close> and
  destination \<^verbatim>\<open>'background'\<close>. One name is registered on it,
  \<^verbatim>\<open>popup.updateState\<close>, bound to the manager's own \<^verbatim>\<open>onStateUpdate\<close>. One call
  is issued on it, \<^verbatim>\<open>background.getState\<close> with no arguments. When that call
  resolves with a snapshot, the snapshot is applied by \<^verbatim>\<open>onStateUpdate\<close>; when it
  rejects or never settles, the state stays as it was.
\<close>

theorem BackgroundManager_constructor_wiring:
  "opt_source (options (bm_rpc (BackgroundManager appState getState))) = ''popup''
   \<and> opt_destination (options (bm_rpc (BackgroundManager appState getState))) = ''background''
   \<and> registered (bm_rpc (BackgroundManager appState getState)) =
       [(''popup.updateState'', Bind this_BackgroundManager ''onStateUpdate'')]
   \<and> this_method ''onStateUpdate'' = Some onStateUpdate
   \<and> called (bm_rpc (BackgroundManager appState getState)) = [(''background.getState'', [])]
   \<and> bm_appState (BackgroundManager appState (Resolves snapshot))
       = onStateUpdate appState snapshot
   \<and> bm_appState (BackgroundManager appState (Rejects err)) = appState
   \<and> bm_appState (BackgroundManager appState NeverSettles) = appState"
  by (simp add: BackgroundManager_def Rpc_new_def register_def rpc_call_def Let_def
      this_method_def)

text \<open>
  C7. After \<^verbatim>\<open>onStateUpdate\<close> has run with a snapshot, each of the twelve tracked
  fields of the popup's state is the snapshot's; the state is the snapshot whatever it
  was before.
\<close>

theorem onStateUpdate_applies_snapshot:
  "isIntegratedSite (onStateUpdate this_appState s) = isIntegratedSite s
   \<and> isUnlocked (onStateUpdate this_appState s) = isUnlocked s
   \<and> unlockAttempts (onStateUpdate this_appState s) = unlockAttempts s
   \<and> lockoutTimerStarted (onStateUpdate this_appState s) = lockoutTimerStarted s
   \<and> remainingMins (onStateUpdate this_appState s) = remainingMins s
   \<and> currentTab (onStateUpdate this_appState s) = currentTab s
   \<and> connectionRequested (onStateUpdate this_appState s) = connectionRequested s
   \<and> connectedSites (onStateUpdate this_appState s) = connectedSites s
   \<and> hasCreatedVault (onStateUpdate this_appState s) = hasCreatedVault s
   \<and> selectedUserAccount (onStateUpdate this_appState s) = selectedUserAccount s
   \<and> userAccounts (onStateUpdate this_appState s) = userAccounts s
   \<and> unsignedDeploys (onStateUpdate this_appState s) = unsignedDeploys s
   \<and> onStateUpdate this_appState s = onStateUpdate other_appState s"
  by (simp add: onStateUpdate_def replace_def)

lemma spec_namespace_listed:
  assumes "spec_namespace name = Some ns"
  shows "\<exists>names. (ns, names) \<in> set spec_method_surface \<and> name \<in> set names"
proof -
  from assms obtain entry
    where found: "find (\<lambda>entry. name \<in> set (snd entry)) spec_method_surface = Some entry"
      and ns: "ns = fst entry"
    by (auto simp: spec_namespace_def)
  from found have "entry \<in> set spec_method_surface" and "name \<in> set (snd entry)"
    by (auto simp: find_Some_iff)
  with ns show ?thesis by (cases entry) auto
qed

lemma invoke_calls:
  "\<exists>ns. spec_namespace (method_name m) = Some ns
      \<and> snd (invoke m r) = r\<lparr>called := called r @ [(ns @ ''.'' @ method_name m, method_args m)]\<rparr>"
  by (cases m)
     (simp_all add: spec_namespace_def spec_method_surface_def rpc_call_def errors_withCapture_def)

text \<open>
  C6. Invoking any of the twenty-five methods adds exactly one call to those issued on
  the manager's endpoint, and changes nothing else of the endpoint. The call's method
  name is the method's own name under the namespace the specification's surface lists
  it in, and its arguments are the method's own arguments in order.
\<close>

theorem BackgroundManager_method_issues_one_call:
  "\<exists>ns names.
      (ns, names) \<in> set spec_method_surface
    \<and> method_name m \<in> set names
    \<and> called (snd (invoke m r)) = called r @ [(ns @ ''.'' @ method_name m, method_args m)]
    \<and> registered (snd (invoke m r)) = registered r
    \<and> options (snd (invoke m r)) = options r"
proof -
  obtain ns where ns: "spec_namespace (method_name m) = Some ns"
    and run: "snd (invoke m r) =
      r\<lparr>called := called r @ [(ns @ ''.'' @ method_name m, method_args m)]\<rparr>"
    using invoke_calls by blast
  from spec_namespace_listed [OF ns] obtain names
    where "(ns, names) \<in> set spec_method_surface" and "method_name m \<in> set names"
    by blast
  with run show ?thesis by auto
qed

text \<open>
  C10, as the claim states it, fails: \<^verbatim>\<open>lock\<close> is not \<^verbatim>\<open>createNewVault\<close>, and it
  returns the promise of its call as it is, not wrapped in \<^verbatim>\<open>errors.withCapture\<close>.
\<close>

theorem lock_is_not_captured_counterexample:
  "method_name Lock \<noteq> method_name (CreateNewVault ''secret'')
   \<and> fst (invoke Lock (bm_rpc (BackgroundManager
        \<lparr>isIntegratedSite = JBool False, isUnlocked = JBool False, unlockAttempts = JNum 5,
         lockoutTimerStarted = JBool False, remainingMins = JNum 0, currentTab = JNull,
         connectionRequested = JBool False, connectedSites = JObj [],
         hasCreatedVault = JBool False, selectedUserAccount = JNull,
         userAccounts = [], unsignedDeploys = []\<rparr> NeverSettles)))
     = CallResult ''account.lock'' []
   \<and> \<not> is_withCapture (fst (invoke Lock (bm_rpc (BackgroundManager
        \<lparr>isIntegratedSite = JBool False, isUnlocked = JBool False, unlockAttempts = JNum 5,
         lockoutTimerStarted = JBool False, remainingMins = JNum 0, currentTab = JNull,
         connectionRequested = JBool False, connectedSites = JObj [],
         hasCreatedVault = JBool False, selectedUserAccount = JNull,
         userAccounts = [], unsignedDeploys = []\<rparr> NeverSettles))))"
  by (simp add: rpc_call_def)

text \<open>
  C10, amended. Every method returns the promise of the one call it issues:
  \<^verbatim>\<open>createNewVault\<close> and \<^verbatim>\<open>lock\<close> return it as it is, every other method returns
  it wrapped once in \<^verbatim>\<open>errors.withCapture\<close>.
\<close>

theorem BackgroundManager_method_capture:
  "\<exists>method args.
      called (snd (invoke m r)) = called r @ [(method, args)]
    \<and> fst (invoke m r) =
        (if method_name m = ''createNewVault'' \<or> method_name m = ''lock''
         then CallResult method args
         else withCapture (CallResult method args))"
  by (cases m) (simp_all add: rpc_call_def errors_withCapture_def)

end
